theory Spec2Isabelle
  imports Complex_Main "HOL-Library.Multiset"
begin

section \<open>Study Group Finder: the group assignment and rebalancing engine\<close>

text \<open>
  A shallow embedding of \<^verbatim>\<open>src/Study_Group_Finder.py\<close>: the classes
  \<^verbatim>\<open>WaitingList\<close>, \<^verbatim>\<open>MemberNode\<close>, \<^verbatim>\<open>Member\<close>,
  \<^verbatim>\<open>GroupListNode\<close> and \<^verbatim>\<open>Groups\<close>.

  Conventions of the embedding.
  \<^item> A singly linked list is the HOL list of the nodes reachable from its head, in link
    order; a tail pointer is the last element. The lists are those of a state in which
    different rosters own different nodes and no chain is cyclic, which is every state built
    by the constructors, \<^verbatim>\<open>enqueue\<close>, \<^verbatim>\<open>add_member\<close>, \<^verbatim>\<open>delete_member\<close>,
    \<^verbatim>\<open>create_new_group\<close>, \<^verbatim>\<open>remove_group\<close> and \<^verbatim>\<open>reshuffle\<close>
    (all of them allocate fresh nodes). The one operation that re-links existing nodes of
    two rosters is \<^verbatim>\<open>merge_members\<close>; its effect on both chains is written out below.
  \<^item> A reference to a group node is its position in the group list (object identity is
    position identity).
  \<^item> Marks are real numbers (Python \<^verbatim>\<open>int\<close> and the finite
    \<^verbatim>\<open>float\<close>s compare as the reals they denote; NaN is outside the model).
  \<^item> Session ratings are Python numbers of an unspecified type \<open>'r\<close>. The arithmetic
    on them is a parameter of the operations that use it: \<open>average rs\<close> is what Python
    computes for the sum of the non-empty list \<open>rs\<close> divided by its length (a number of
    an unspecified type \<open>'f\<close>, with the rounding of float addition and division, or an
    \<^verbatim>\<open>OverflowError\<close>), and \<open>below_two x\<close> is Python's \<^verbatim>\<open>x < 2\<close>.
  \<^item> The labels \<^verbatim>\<open>"low"\<close>, \<^verbatim>\<open>"mid"\<close>, \<^verbatim>\<open>"high"\<close> are the only
    strings the program ever stores in \<^verbatim>\<open>label\<close>; they are an enumeration here.
  \<^item> A raised Python exception is a value of \<open>py_error\<close>; printing is omitted.
  \<^item> \<^verbatim>\<open>random.shuffle\<close> is a parameter \<open>shuffle\<close> of the operations that call it.
\<close>

datatype label = Low | Mid | High

datatype py_error = AttributeError | IndexError | ValueError | OverflowError | Diverges

subsection \<open>Waiting list nodes and member nodes\<close>

record WaitingListNode =
  student_id :: int
  name :: string
  marks :: real
  preferred_language :: string

text \<open>A \<^verbatim>\<open>MemberNode\<close> has the same four fields and the stored \<^verbatim>\<open>label\<close>.\<close>

record MemberNode = WaitingListNode +
  label :: label

definition MemberNode_init :: "string \<Rightarrow> real \<Rightarrow> string \<Rightarrow> int \<Rightarrow> MemberNode" where
  "MemberNode_init nm mk lang sid =
     \<lparr>student_id = sid, name = nm, marks = mk, preferred_language = lang,
      label = (if mk < 40 then Low else if mk < 75 then Mid else High)\<rparr>"

definition update_marks :: "MemberNode \<Rightarrow> real \<Rightarrow> MemberNode" where
  "update_marks node new_marks =
     (let node1 = node\<lparr>marks := new_marks\<rparr>
      in if new_marks < 40 then node1\<lparr>label := Low\<rparr>
         else if new_marks < 75 then node1\<lparr>label := Mid\<rparr>
         else node1\<lparr>label := High\<rparr>)"

subsection \<open>WaitingList: a linked queue with head and tail\<close>

type_synonym WaitingList = "WaitingListNode list"

definition WaitingList_is_empty :: "WaitingList \<Rightarrow> bool" where
  "WaitingList_is_empty q = (q = [])"

definition enqueue :: "WaitingList \<Rightarrow> int \<Rightarrow> string \<Rightarrow> real \<Rightarrow> string \<Rightarrow> WaitingList" where
  "enqueue q sid nm mk lang =
     (let new_node = \<lparr>student_id = sid, name = nm, marks = mk, preferred_language = lang\<rparr>
      in if WaitingList_is_empty q then [new_node] else q @ [new_node])"

text \<open>\<^verbatim>\<open>dequeue\<close> returns the removed node (\<open>None\<close> for Python's \<^verbatim>\<open>None\<close>) and the queue left.\<close>

definition dequeue :: "WaitingList \<Rightarrow> WaitingListNode option \<times> WaitingList" where
  "dequeue q =
     (if WaitingList_is_empty q then (None, q)
      else (case q of student # rest \<Rightarrow> (Some student, rest) | [] \<Rightarrow> (None, q)))"

text \<open>Enqueuing a list of students one after the other, and dequeuing \<open>n\<close> times.\<close>

fun enqueue_all :: "WaitingList \<Rightarrow> WaitingListNode list \<Rightarrow> WaitingList" where
  "enqueue_all q [] = q"
| "enqueue_all q (s # ss) =
     enqueue_all (enqueue q (student_id s) (name s) (marks s) (preferred_language s)) ss"

fun dequeue_n :: "nat \<Rightarrow> WaitingList \<Rightarrow> WaitingListNode option list \<times> WaitingList" where
  "dequeue_n 0 q = ([], q)"
| "dequeue_n (Suc n) q =
     (let (r, q1) = dequeue q; (rs, q2) = dequeue_n n q1 in (r # rs, q2))"

subsection \<open>Member: the roster of one group\<close>

record Member =
  head :: "MemberNode list"
  number_of_members :: int
  count_low :: int
  count_mid :: int
  count_high :: int

definition Member_init :: Member where
  "Member_init = \<lparr>head = [], number_of_members = 0, count_low = 0, count_mid = 0, count_high = 0\<rparr>"

definition Member_is_empty :: "Member \<Rightarrow> bool" where
  "Member_is_empty M = (head M = [])"

text \<open>\<^verbatim>\<open>add_member\<close> always returns \<^verbatim>\<open>True\<close>; the model returns the roster.\<close>

definition add_member :: "Member \<Rightarrow> string \<Rightarrow> real \<Rightarrow> string \<Rightarrow> int \<Rightarrow> Member" where
  "add_member M nm mk lang sid =
     (let new_member = MemberNode_init nm mk lang sid;
          M1 = (if Member_is_empty M then M\<lparr>head := [new_member]\<rparr>
                else M\<lparr>head := head M @ [new_member]\<rparr>);
          M2 = M1\<lparr>number_of_members := number_of_members M1 + 1\<rparr>
      in if label new_member = Low then M2\<lparr>count_low := count_low M2 + 1\<rparr>
         else if label new_member = Mid then M2\<lparr>count_mid := count_mid M2 + 1\<rparr>
         else M2\<lparr>count_high := count_high M2 + 1\<rparr>)"

text \<open>
  \<^verbatim>\<open>delete_member\<close> unlinks the first node with the given id (the head test and the
  traversal of the source are the two equations of \<open>unlink\<close>) and decrements the counter
  of that node's label.
\<close>

fun unlink :: "int \<Rightarrow> MemberNode list \<Rightarrow> (MemberNode \<times> MemberNode list) option" where
  "unlink sid [] = None"
| "unlink sid (n # ns) =
     (if student_id n = sid then Some (n, ns)
      else (case unlink sid ns of None \<Rightarrow> None | Some (d, ns') \<Rightarrow> Some (d, n # ns')))"

definition Member_delete_member :: "Member \<Rightarrow> int \<Rightarrow> bool \<times> Member" where
  "Member_delete_member M sid =
     (if Member_is_empty M then (False, M)
      else (case unlink sid (head M) of
              None \<Rightarrow> (False, M)
            | Some (d, ns) \<Rightarrow>
                (let M1 = (if label d = Low then M\<lparr>count_low := count_low M - 1\<rparr>
                           else if label d = Mid then M\<lparr>count_mid := count_mid M - 1\<rparr>
                           else M\<lparr>count_high := count_high M - 1\<rparr>)
                 in (True, M1\<lparr>head := ns, number_of_members := number_of_members M1 - 1\<rparr>))))"

definition search_member_id :: "Member \<Rightarrow> int \<Rightarrow> MemberNode option" where
  "search_member_id M member_id = find (\<lambda>n. student_id n = member_id) (head M)"

text \<open>
  \<^verbatim>\<open>merge_members(mem1, mem2)\<close> walks to the last node of \<open>mem1\<close> (an
  \<^verbatim>\<open>AttributeError\<close> when \<open>mem1\<close> is \<^verbatim>\<open>None\<close>), links it to \<open>mem2\<close>, counts the labels
  of the linked chain and returns the chain or \<^verbatim>\<open>None\<close>. The link is made before the
  count, so the model returns the chain now reachable from \<open>mem1\<close> together with the
  result.
\<close>

fun count_labels :: "MemberNode list \<Rightarrow> int \<Rightarrow> int \<Rightarrow> int \<Rightarrow> int \<times> int \<times> int" where
  "count_labels [] h m l = (h, m, l)"
| "count_labels (cur # rest) h m l =
     (if label cur = High then count_labels rest (h + 1) m l
      else if label cur = Mid then count_labels rest h (m + 1) l
      else count_labels rest h m (l + 1))"

definition merge_members ::
  "MemberNode list \<Rightarrow> MemberNode list \<Rightarrow> py_error + (MemberNode list \<times> MemberNode list option)" where
  "merge_members mem1 mem2 =
     (if mem1 = [] then Inl AttributeError
      else (let current = mem1 @ mem2; (h, m, l) = count_labels current 0 0 0
            in if h \<noteq> 2 \<or> m \<noteq> 3 \<or> l \<noteq> 2 then Inr (current, None)
               else Inr (current, Some current)))"

subsection \<open>GroupListNode and Groups: the directory of one language\<close>

text \<open>
  A \<^verbatim>\<open>GroupListNode\<close> also declares \<^verbatim>\<open>count_low\<close>, \<^verbatim>\<open>count_mid\<close>,
  \<^verbatim>\<open>count_high\<close> and \<^verbatim>\<open>number_of_members\<close> of its own; no method reads or writes
  them (every method uses those of \<^verbatim>\<open>member_list\<close>), so they are left out.
\<close>

record 'r GroupListNode =
  group_id :: int
  member_list :: Member
  session_rating :: "'r list"
  is_custom :: bool

definition GroupListNode_init :: "int \<Rightarrow> 'r GroupListNode" where
  "GroupListNode_init gid =
     \<lparr>group_id = gid, member_list = Member_init, session_rating = [], is_custom = False\<rparr>"

text \<open>
  \<^verbatim>\<open>calc_avg_rating\<close> returns the \<^verbatim>\<open>int\<close> 0 for an empty history (\<open>None\<close>
  here) and the computed average otherwise; \<open>avg_below_2\<close> is the test
  \<^verbatim>\<open>group.calc_avg_rating() < 2\<close> of the callers, true for the \<^verbatim>\<open>int\<close> 0.
\<close>

definition calc_avg_rating ::
  "('r list \<Rightarrow> py_error + 'f) \<Rightarrow> 'r GroupListNode \<Rightarrow> py_error + 'f option" where
  "calc_avg_rating average g =
     (if session_rating g \<noteq> []
      then (case average (session_rating g) of Inl e \<Rightarrow> Inl e | Inr avg \<Rightarrow> Inr (Some avg))
      else Inr None)"

definition avg_below_2 ::
  "('r list \<Rightarrow> py_error + 'f) \<Rightarrow> ('f \<Rightarrow> bool) \<Rightarrow> 'r GroupListNode \<Rightarrow> py_error + bool" where
  "avg_below_2 average below_two g =
     (case calc_avg_rating average g of
        Inl e \<Rightarrow> Inl e
      | Inr None \<Rightarrow> Inr True
      | Inr (Some avg) \<Rightarrow> Inr (below_two avg))"

record 'r Groups =
  language_value :: string
  no_of_groups :: int
  waiting_list_low :: WaitingList
  waiting_list_mid :: WaitingList
  waiting_list_high :: WaitingList
  group_head :: "'r GroupListNode list"

definition Groups_init :: "string \<Rightarrow> 'r Groups" where
  "Groups_init language =
     \<lparr>language_value = language, no_of_groups = 0, waiting_list_low = [],
      waiting_list_mid = [], waiting_list_high = [], group_head = []\<rparr>"

text \<open>\<^verbatim>\<open>add_new_group\<close> returns the new node: here its position, the old length of the list.\<close>

definition add_new_group :: "'r Groups \<Rightarrow> int \<Rightarrow> nat \<times> 'r Groups" where
  "add_new_group G gid =
     (length (group_head G),
      G\<lparr>group_head := group_head G @ [GroupListNode_init gid], no_of_groups := no_of_groups G + 1\<rparr>)"

text \<open>\<^verbatim>\<open>search_group_id\<close>: the first node with the id, as a position.\<close>

fun first_with_id :: "'r GroupListNode list \<Rightarrow> int \<Rightarrow> nat option" where
  "first_with_id [] gid = None"
| "first_with_id (current # rest) gid =
     (if group_id current = gid then Some 0
      else (case first_with_id rest gid of None \<Rightarrow> None | Some i \<Rightarrow> Some (Suc i)))"

definition search_group_id :: "'r Groups \<Rightarrow> int \<Rightarrow> nat option" where
  "search_group_id G gid = first_with_id (group_head G) gid"

text \<open>Reading and writing the roster of the group at a position.\<close>

definition roster :: "'r Groups \<Rightarrow> nat \<Rightarrow> Member" where
  "roster G i = member_list (group_head G ! i)"

definition set_roster :: "'r Groups \<Rightarrow> nat \<Rightarrow> Member \<Rightarrow> 'r Groups" where
  "set_roster G i M = G\<lparr>group_head := (group_head G)[i := (group_head G ! i)\<lparr>member_list := M\<rparr>]\<rparr>"

definition remove_group :: "'r Groups \<Rightarrow> int \<Rightarrow> bool \<times> 'r Groups" where
  "remove_group G gid =
     (case search_group_id G gid of
        None \<Rightarrow> (False, G)
      | Some i \<Rightarrow>
          (True, set_roster G i ((roster G i)\<lparr>head := [], number_of_members := 0,
                                               count_low := 0, count_mid := 0, count_high := 0\<rparr>)))"

text \<open>
  \<^verbatim>\<open>merge_groups\<close>. A missing group is \<^verbatim>\<open>None.member_list\<close>, an
  \<^verbatim>\<open>AttributeError\<close>. When both ids name the same node, \<^verbatim>\<open>merge_members\<close> links
  the last node of the chain to its own head and its counting loop never ends
  (\<open>Diverges\<close>), unless the chain is empty (\<^verbatim>\<open>AttributeError\<close>). Otherwise the chain
  of the first group is the linked chain whatever the result; on success the second group
  is emptied by \<^verbatim>\<open>remove_group\<close>. No counter of the first group is written.
\<close>

definition merge_groups :: "'r Groups \<Rightarrow> int \<Rightarrow> int \<Rightarrow> py_error + (bool \<times> 'r Groups)" where
  "merge_groups G group_id_1 group_id_2 =
     (case search_group_id G group_id_1 of
        None \<Rightarrow> Inl AttributeError
      | Some group1 \<Rightarrow>
         (case search_group_id G group_id_2 of
            None \<Rightarrow> Inl AttributeError
          | Some group2 \<Rightarrow>
             (if group1 = group2
              then (if head (roster G group1) = [] then Inl AttributeError else Inl Diverges)
              else (case merge_members (head (roster G group1)) (head (roster G group2)) of
                      Inl e \<Rightarrow> Inl e
                    | Inr (linked, stu) \<Rightarrow>
                        (let G1 = set_roster G group1 ((roster G group1)\<lparr>head := linked\<rparr>)
                         in (case stu of
                               Some chain \<Rightarrow>
                                 Inr (True, snd (remove_group
                                        (set_roster G1 group1 ((roster G1 group1)\<lparr>head := chain\<rparr>))
                                        (group_id (group_head G1 ! group2))))
                             | None \<Rightarrow> Inr (False, G1)))))))"

text \<open>
  \<^verbatim>\<open>create_new_group\<close>. Each \<^verbatim>\<open>for _ in range(n)\<close> loop dequeues a student and adds
  it to the roster; a \<^verbatim>\<open>None\<close> from \<^verbatim>\<open>dequeue\<close> would be \<^verbatim>\<open>None.name\<close>, an
  \<^verbatim>\<open>AttributeError\<close>. The result is the group returned (\<open>None\<close> for \<^verbatim>\<open>None\<close>)
  and the directory.
\<close>

fun first_empty :: "'r GroupListNode list \<Rightarrow> nat option" where
  "first_empty [] = None"
| "first_empty (current # rest) =
     (if Member_is_empty (member_list current) then Some 0
      else (case first_empty rest of None \<Rightarrow> None | Some i \<Rightarrow> Some (Suc i)))"

fun take_students :: "nat \<Rightarrow> WaitingList \<Rightarrow> Member \<Rightarrow> py_error + (WaitingList \<times> Member)" where
  "take_students 0 q M = Inr (q, M)"
| "take_students (Suc n) q M =
     (case dequeue q of
        (None, q1) \<Rightarrow> Inl AttributeError
      | (Some student, q1) \<Rightarrow>
          take_students n q1
            (add_member M (name student) (marks student) (preferred_language student)
               (student_id student)))"

definition create_new_group :: "'r Groups \<Rightarrow> py_error + (nat option \<times> 'r Groups)" where
  "create_new_group G =
     (let high_count = int (length (waiting_list_high G));
          mid_count = int (length (waiting_list_mid G));
          low_count = int (length (waiting_list_low G));
          empty_group = first_empty (group_head G)
      in if high_count \<ge> 2 \<and> mid_count \<ge> 3 \<and> low_count \<ge> 2 then
           (let (new_group, G0) =
                  (case empty_group of
                     Some e \<Rightarrow> (e, G)
                   | None \<Rightarrow> add_new_group G (no_of_groups G + 1))
            in case take_students 2 (waiting_list_high G0) (roster G0 new_group) of
                 Inl e \<Rightarrow> Inl e
               | Inr (qh, M1) \<Rightarrow>
              (case take_students 3 (waiting_list_mid G0) M1 of
                 Inl e \<Rightarrow> Inl e
               | Inr (qm, M2) \<Rightarrow>
              (case take_students 2 (waiting_list_low G0) M2 of
                 Inl e \<Rightarrow> Inl e
               | Inr (ql, M3) \<Rightarrow>
                  (let G1 = (set_roster G0 new_group M3)
                              \<lparr>waiting_list_low := ql, waiting_list_mid := qm,
                               waiting_list_high := qh\<rparr>
                   in if number_of_members M3 \<noteq> 7
                      then Inr (None, G1\<lparr>no_of_groups := no_of_groups G1 - 1\<rparr>)
                      else Inr (Some new_group, G1)))))
         else Inr (None, G))"

text \<open>
  \<^verbatim>\<open>reshuffle\<close>. \<open>distribute\<close> is the \<^verbatim>\<open>while True\<close> loop, given the members in the
  order \<^verbatim>\<open>members.pop()\<close> yields them (last first); the first \<^verbatim>\<open>pop\<close> on an empty pool
  is an \<^verbatim>\<open>IndexError\<close>. The result \<open>None\<close> is \<^verbatim>\<open>(False, None, None)\<close>.
\<close>

fun distribute :: "nat \<Rightarrow> nat \<Rightarrow> MemberNode list \<Rightarrow> int \<times> int \<times> int \<Rightarrow> 'r Groups \<Rightarrow> 'r Groups" where
  "distribute group1 group2 [] counts G = G"
| "distribute group1 group2 (member # members) (lo, mi, hi) G =
     (let add_to = (\<lambda>g. set_roster G g
                        (add_member (roster G g) (name member) (marks member)
                           (preferred_language member) (student_id member)))
      in if label member = Low \<and> lo < 2
           then distribute group1 group2 members (lo + 1, mi, hi) (add_to group1)
         else if label member = Mid \<and> mi < 3
           then distribute group1 group2 members (lo, mi + 1, hi) (add_to group1)
         else if label member = High \<and> hi < 2
           then distribute group1 group2 members (lo, mi, hi + 1) (add_to group1)
         else if label member = Low \<or> lo \<ge> 2
           then distribute group1 group2 members (lo, mi, hi) (add_to group2)
         else if label member = Mid \<or> mi \<ge> 3
           then distribute group1 group2 members (lo, mi, hi) (add_to group2)
         else if label member = High \<or> hi \<ge> 2
           then distribute group1 group2 members (lo, mi, hi) (add_to group2)
         else distribute group1 group2 members (lo, mi, hi) G)"

definition reset_roster :: "Member \<Rightarrow> Member" where
  "reset_roster M = M\<lparr>head := [], number_of_members := 0, count_high := 0,
                      count_mid := 0, count_low := 0\<rparr>"

definition reshuffle ::
  "(MemberNode list \<Rightarrow> MemberNode list) \<Rightarrow> 'r Groups \<Rightarrow> int \<Rightarrow> int
     \<Rightarrow> py_error + ((nat \<times> nat) option \<times> 'r Groups)" where
  "reshuffle shuffle G group1_id group2_id =
     (case search_group_id G group1_id of
        None \<Rightarrow> Inr (None, G)
      | Some group1 \<Rightarrow>
         (case search_group_id G group2_id of
            None \<Rightarrow> Inr (None, G)
          | Some group2 \<Rightarrow>
             (let members = shuffle (head (roster G group1) @ head (roster G group2));
                  G1 = set_roster G group1 (reset_roster (roster G group1));
                  G2 = set_roster G1 group2 (reset_roster (roster G1 group2))
              in if members = [] then Inl IndexError
                 else Inr (Some (group1, group2),
                           distribute group1 group2 (rev members) (0, 0, 0) G2))))"

text \<open>
  \<^verbatim>\<open>classify_groups\<close>: the groups whose \<^verbatim>\<open>number_of_members\<close> is 7, and the
  others, in list order.
\<close>

definition classify_groups :: "'r Groups \<Rightarrow> nat list \<times> nat list" where
  "classify_groups G =
     (filter (\<lambda>i. number_of_members (roster G i) = 7) [0..<length (group_head G)],
      filter (\<lambda>i. number_of_members (roster G i) \<noteq> 7) [0..<length (group_head G)])"

text \<open>
  \<^verbatim>\<open>possible_merging\<close>. The test \<^verbatim>\<open>current.group_id not in li\<close> looks an \<^verbatim>\<open>int\<close> up
  in a list of \<^verbatim>\<open>GroupListNode\<close> objects; the class defines no \<^verbatim>\<open>__eq__\<close>, so an
  \<^verbatim>\<open>int\<close> equals no node. The inner loop visits the groups before \<open>current\<close>.
\<close>

definition int_eq_node :: "int \<Rightarrow> 'r GroupListNode \<Rightarrow> bool" where
  "int_eq_node n node = False"

fun merge_with_earlier :: "nat \<Rightarrow> nat list \<Rightarrow> 'r Groups \<Rightarrow> py_error + 'r Groups" where
  "merge_with_earlier current [] G = Inr G"
| "merge_with_earlier current (curr0 # rest) G =
     (let M = roster G curr0
      in if (count_high M + count_high M) + (count_mid M + count_mid M)
              + (count_low M + count_low M) = 7
         then (case merge_groups G (group_id (group_head G ! current))
                                   (group_id (group_head G ! curr0)) of
                 Inl e \<Rightarrow> Inl e
               | Inr (merged, G1) \<Rightarrow> merge_with_earlier current rest G1)
         else merge_with_earlier current rest G)"

fun possible_merging_loop :: "'r GroupListNode list \<Rightarrow> nat list \<Rightarrow> 'r Groups \<Rightarrow> py_error + 'r Groups" where
  "possible_merging_loop li [] G = Inr G"
| "possible_merging_loop li (current # rest) G =
     (if \<not> list_ex (int_eq_node (group_id (group_head G ! current))) li
      then (case merge_with_earlier current [0..<current] G of
              Inl e \<Rightarrow> Inl e
            | Inr G1 \<Rightarrow> possible_merging_loop li rest G1)
      else possible_merging_loop li rest G)"

definition possible_merging :: "'r Groups \<Rightarrow> py_error + 'r Groups" where
  "possible_merging G =
     (let li = map (\<lambda>i. group_head G ! i) (snd (classify_groups G))
      in possible_merging_loop li [0..<length (group_head G)] G)"

text \<open>
  \<^verbatim>\<open>Groups.delete_member\<close>: \<^verbatim>\<open>None.member_list\<close> for a missing group and
  \<^verbatim>\<open>None.label\<close> for a missing member are \<^verbatim>\<open>AttributeError\<close>s.
\<close>

definition Groups_delete_member :: "'r Groups \<Rightarrow> int \<Rightarrow> int \<Rightarrow> py_error + 'r Groups" where
  "Groups_delete_member G gid member_id =
     (case search_group_id G gid of
        None \<Rightarrow> Inl AttributeError
      | Some grp \<Rightarrow>
         (case search_member_id (roster G grp) member_id of
            None \<Rightarrow> Inl AttributeError
          | Some found \<Rightarrow>
             (let (student, G1) =
                    (if label found = High
                       then (let (s, q) = dequeue (waiting_list_high G)
                             in (s, G\<lparr>waiting_list_high := q\<rparr>))
                     else if label found = Mid
                       then (let (s, q) = dequeue (waiting_list_mid G)
                             in (s, G\<lparr>waiting_list_mid := q\<rparr>))
                     else (let (s, q) = dequeue (waiting_list_low G)
                           in (s, G\<lparr>waiting_list_low := q\<rparr>)));
                  G2 = (case student of
                          Some s \<Rightarrow>
                            set_roster G1 grp
                              (add_member (roster G1 grp) (name s) (marks s)
                                 (preferred_language s) (student_id s))
                        | None \<Rightarrow> G1);
                  G3 = set_roster G2 grp (snd (Member_delete_member (roster G2 grp) member_id))
              in possible_merging G3)))"

text \<open>
  \<^verbatim>\<open>condition_checker\<close>. \<open>collect_low_rated\<close> is the loop over the full groups, with the
  worklist \<open>L\<close> as accumulator (an exception of the average computation ends it);
  \<open>reshuffle_pairs\<close> is the loop \<^verbatim>\<open>for i in range(len(L)-1)\<close>, where unpacking
  \<^verbatim>\<open>(False, None, None)\<close> into two targets is a \<^verbatim>\<open>ValueError\<close>; then
  \<^verbatim>\<open>L[0]\<close> on an empty worklist is an \<^verbatim>\<open>IndexError\<close>.
\<close>

fun collect_low_rated ::
  "('r list \<Rightarrow> py_error + 'f) \<Rightarrow> ('f \<Rightarrow> bool) \<Rightarrow> nat list \<Rightarrow> nat list \<Rightarrow> 'r Groups
     \<Rightarrow> py_error + (nat list \<times> 'r Groups)" where
  "collect_low_rated average below_two [] L G = Inr (L, G)"
| "collect_low_rated average below_two (grp # rest) L G =
     (let M = roster G grp
      in if count_high M \<noteq> 2 \<or> count_mid M \<noteq> 3 \<or> count_low M \<noteq> 2
         then (case avg_below_2 average below_two (group_head G ! grp) of
                 Inl e \<Rightarrow> Inl e
               | Inr True \<Rightarrow>
                   collect_low_rated average below_two rest L
                     (snd (remove_group G (group_id (group_head G ! grp))))
               | Inr False \<Rightarrow> collect_low_rated average below_two rest L G)
         else (case avg_below_2 average below_two (group_head G ! grp) of
                 Inl e \<Rightarrow> Inl e
               | Inr True \<Rightarrow> collect_low_rated average below_two rest (L @ [grp]) G
               | Inr False \<Rightarrow> collect_low_rated average below_two rest L G))"

fun reshuffle_pairs ::
  "(MemberNode list \<Rightarrow> MemberNode list) \<Rightarrow> nat \<Rightarrow> nat \<Rightarrow> nat list \<Rightarrow> 'r Groups
     \<Rightarrow> py_error + (nat list \<times> 'r Groups)" where
  "reshuffle_pairs shuffle 0 i L G = Inr (L, G)"
| "reshuffle_pairs shuffle (Suc n) i L G =
     (case reshuffle shuffle G (group_id (group_head G ! (L ! i)))
                               (group_id (group_head G ! (L ! (i + 1)))) of
        Inl e \<Rightarrow> Inl e
      | Inr (None, G1) \<Rightarrow> Inl ValueError
      | Inr (Some (a, b), G1) \<Rightarrow> reshuffle_pairs shuffle n (i + 1) (L[i := a, i + 1 := b]) G1)"

definition condition_checker ::
  "(MemberNode list \<Rightarrow> MemberNode list) \<Rightarrow> ('r list \<Rightarrow> py_error + 'f) \<Rightarrow> ('f \<Rightarrow> bool)
     \<Rightarrow> 'r Groups \<Rightarrow> py_error + 'r Groups" where
  "condition_checker shuffle average below_two G =
     (let L1 = fst (classify_groups G)
      in case collect_low_rated average below_two L1 [] G of
           Inl e \<Rightarrow> Inl e
         | Inr (L, G1) \<Rightarrow>
        (case reshuffle_pairs shuffle (length L - 1) 0 L G1 of
           Inl e \<Rightarrow> Inl e
         | Inr (L', G2) \<Rightarrow>
             (if L' = [] then Inl IndexError
              else if hd L' \<noteq> last L'
              then (case reshuffle shuffle G2 (group_id (group_head G2 ! last L'))
                                              (group_id (group_head G2 ! hd L')) of
                      Inl e \<Rightarrow> Inl e
                    | Inr (None, G3) \<Rightarrow> Inl ValueError
                    | Inr (Some (a, b), G3) \<Rightarrow> possible_merging G3)
              else possible_merging G2)))"

subsection \<open>Predicates and example states used in the statements\<close>

text \<open>The tally of a roster: how many nodes of the chain carry a label.\<close>

definition tally :: "label \<Rightarrow> MemberNode list \<Rightarrow> int" where
  "tally lb ns = int (length (filter (\<lambda>n. label n = lb) ns))"

text \<open>The counters of a roster agree with its chain.\<close>

definition counters_ok :: "Member \<Rightarrow> bool" where
  "counters_ok M \<longleftrightarrow>
     count_low M = tally Low (head M) \<and> count_mid M = tally Mid (head M) \<and>
     count_high M = tally High (head M) \<and>
     number_of_members M = count_low M + count_mid M + count_high M"

text \<open>The label a constructor call would store for the marks of a node.\<close>

definition label_matches_marks :: "MemberNode \<Rightarrow> bool" where
  "label_matches_marks n \<longleftrightarrow>
     label n = label (MemberNode_init (name n) (marks n) (preferred_language n) (student_id n))"

definition waiting_student :: "int \<Rightarrow> real \<Rightarrow> WaitingListNode" where
  "waiting_student sid mk =
     \<lparr>student_id = sid, name = ''S'', marks = mk, preferred_language = ''English''\<rparr>"

text \<open>A roster built by \<^verbatim>\<open>add_member\<close> calls from the empty roster.\<close>

fun roster_of :: "(int \<times> real) list \<Rightarrow> Member \<Rightarrow> Member" where
  "roster_of [] M = M"
| "roster_of ((sid, mk) # rest) M = roster_of rest (add_member M ''S'' mk ''English'' sid)"

definition group_of :: "int \<Rightarrow> (int \<times> real) list \<Rightarrow> real GroupListNode" where
  "group_of gid members = (GroupListNode_init gid)\<lparr>member_list := roster_of members Member_init\<rparr>"

text \<open>Waiting queues with 1 High, 5 Mid and 2 Low students, no group.\<close>

definition dir_1_5_2 :: "real Groups" where
  "dir_1_5_2 = (Groups_init ''English'')
     \<lparr>waiting_list_low := [waiting_student 7 30, waiting_student 8 30],
      waiting_list_mid := [waiting_student 2 70, waiting_student 3 65, waiting_student 4 60,
                           waiting_student 5 50, waiting_student 6 45],
      waiting_list_high := [waiting_student 1 90]\<rparr>"

text \<open>Waiting queues with exactly 2 High, 3 Mid and 2 Low students, and one vacant group.\<close>

definition dir_2_3_2 :: "real Groups" where
  "dir_2_3_2 = (Groups_init ''English'')
     \<lparr>no_of_groups := 1,
      waiting_list_low := [waiting_student 6 30, waiting_student 7 30],
      waiting_list_mid := [waiting_student 3 70, waiting_student 4 65, waiting_student 5 60],
      waiting_list_high := [waiting_student 1 90, waiting_student 2 85],
      group_head := [GroupListNode_init 1]\<rparr>"

text \<open>
  Two partial groups: group 1 with 2 Mid and 2 Low members, group 2 with 2 High and 1 Mid
  (the state of the driver before it merges groups 1 and 2).
\<close>

definition two_partial :: "real Groups" where
  "two_partial = (Groups_init ''English'')
     \<lparr>no_of_groups := 2,
      group_head := [group_of 1 [(5, 70), (6, 45), (7, 30), (8, 30)],
                     group_of 2 [(10, 90), (11, 85), (12, 70)]]\<rparr>"

text \<open>Two groups of one member each: a High member in group 1, a Low member in group 2.\<close>

definition two_small :: "real Groups" where
  "two_small = (Groups_init ''English'')
     \<lparr>no_of_groups := 2, group_head := [group_of 1 [(1, 90)], group_of 2 [(2, 30)]]\<rparr>"

text \<open>A full group 1 (2 High, 3 Mid, 2 Low) and a group 2 with 1 High and 1 Mid member.\<close>

definition full_and_small :: "real Groups" where
  "full_and_small = (Groups_init ''English'')
     \<lparr>no_of_groups := 2,
      group_head := [group_of 1 [(1, 90), (2, 85), (3, 70), (4, 65), (5, 60), (6, 30), (7, 30)],
                     group_of 2 [(8, 80), (9, 50)]]\<rparr>"

text \<open>
  Specification-level functions used in the statements and proofs: the member node that
  \<^verbatim>\<open>add_member\<close> builds from the four fields of a node, a sequence of
  \<^verbatim>\<open>add_member\<close> calls, and the two sequences into which the loop of
  \<^verbatim>\<open>reshuffle\<close> splits the popped members (first group, second group).
\<close>

definition to_member :: "'a WaitingListNode_scheme \<Rightarrow> MemberNode" where
  "to_member s = MemberNode_init (name s) (marks s) (preferred_language s) (student_id s)"

fun add_students :: "'a WaitingListNode_scheme list \<Rightarrow> Member \<Rightarrow> Member" where
  "add_students [] M = M"
| "add_students (s # ss) M =
     add_students ss (add_member M (name s) (marks s) (preferred_language s) (student_id s))"

fun split_pool :: "MemberNode list \<Rightarrow> int \<times> int \<times> int \<Rightarrow> MemberNode list \<times> MemberNode list" where
  "split_pool [] counts = ([], [])"
| "split_pool (member # members) (lo, mi, hi) =
     (if label member = Low \<and> lo < 2
        then (member # fst (split_pool members (lo + 1, mi, hi)),
              snd (split_pool members (lo + 1, mi, hi)))
      else if label member = Mid \<and> mi < 3
        then (member # fst (split_pool members (lo, mi + 1, hi)),
              snd (split_pool members (lo, mi + 1, hi)))
      else if label member = High \<and> hi < 2
        then (member # fst (split_pool members (lo, mi, hi + 1)),
              snd (split_pool members (lo, mi, hi + 1)))
      else (fst (split_pool members (lo, mi, hi)),
            member # snd (split_pool members (lo, mi, hi))))"

text \<open>The same state after two sessions rated 3 and 4 in group 1.\<close>

definition rated_full :: "real Groups" where
  "rated_full = full_and_small
     \<lparr>group_head := [(group_of 1 [(1, 90), (2, 85), (3, 70), (4, 65), (5, 60), (6, 30), (7, 30)])
                        \<lparr>session_rating := [3, 4]\<rparr>,
                     group_of 2 [(8, 80), (9, 50)]]\<rparr>"

text \<open>
  A state reached through the operations themselves: groups 1 and 2 of \<open>two_partial\<close> are
  merged, the seven members of group 1 then leave one by one, and seven new students, 2
  High, 3 Mid and 2 Low, are enqueued. \<open>queue_marks\<close> observes the marks waiting in the
  three queues.
\<close>

fun delete_members :: "'r Groups \<Rightarrow> int \<Rightarrow> int list \<Rightarrow> py_error + 'r Groups" where
  "delete_members G gid [] = Inr G"
| "delete_members G gid (member_id # rest) =
     (case Groups_delete_member G gid member_id of
        Inl e \<Rightarrow> Inl e
      | Inr G1 \<Rightarrow> delete_members G1 gid rest)"

definition stale_vacant :: "py_error + real Groups" where
  "stale_vacant =
     (case merge_groups two_partial 1 2 of
        Inl e \<Rightarrow> Inl e
      | Inr (merged, G1) \<Rightarrow>
         (case delete_members G1 1 [5, 6, 7, 8, 10, 11, 12] of
            Inl e \<Rightarrow> Inl e
          | Inr G2 \<Rightarrow>
              Inr (G2\<lparr>waiting_list_low :=
                         enqueue_all (waiting_list_low G2)
                           [waiting_student 26 30, waiting_student 27 30],
                       waiting_list_mid :=
                         enqueue_all (waiting_list_mid G2)
                           [waiting_student 23 70, waiting_student 24 65, waiting_student 25 60],
                       waiting_list_high :=
                         enqueue_all (waiting_list_high G2)
                           [waiting_student 21 90, waiting_student 22 85]\<rparr>)))"

definition queue_marks :: "'r Groups \<Rightarrow> real list \<times> real list \<times> real list" where
  "queue_marks G = (map marks (waiting_list_high G), map marks (waiting_list_mid G),
                    map marks (waiting_list_low G))"


text \<open>
  Arithmetic without rounding, for examples whose ratings Python averages exactly (the
  ratings 3 and 4 have the sum 7 and the average 3.5, both computed without rounding).
\<close>

definition exact_average :: "real list \<Rightarrow> py_error + real" where
  "exact_average rs = Inr (sum_list rs / real (length rs))"

definition real_below_two :: "real \<Rightarrow> bool" where
  "real_below_two x \<longleftrightarrow> x < 2"

text \<open>Observations of a directory: the student ids of each roster, and its counters.\<close>

definition roster_ids :: "'r Groups \<Rightarrow> int list list" where
  "roster_ids G = map (\<lambda>g. map student_id (head (member_list g))) (group_head G)"

definition roster_counters :: "'r Groups \<Rightarrow> (int \<times> int \<times> int \<times> int) list" where
  "roster_counters G =
     map (\<lambda>g. (number_of_members (member_list g), count_high (member_list g),
                count_mid (member_list g), count_low (member_list g))) (group_head G)"

section \<open>Properties\<close>

lemmas example_defs = dir_1_5_2_def dir_2_3_2_def two_partial_def two_small_def
  full_and_small_def rated_full_def group_of_def waiting_student_def Groups_init_def
  GroupListNode_init_def Member_init_def add_member_def MemberNode_init_def Member_is_empty_def

subsection \<open>The waiting queue\<close>

lemma enqueue_append:
  "enqueue q sid nm mk lang =
     q @ [\<lparr>student_id = sid, name = nm, marks = mk, preferred_language = lang\<rparr>]"
  by (simp add: enqueue_def WaitingList_is_empty_def Let_def)

lemma enqueue_all_append: "enqueue_all q xs = q @ xs"
  by (induction xs arbitrary: q) (simp_all add: enqueue_append)

lemma dequeue_Nil: "dequeue [] = (None, [])"
  by (simp add: dequeue_def WaitingList_is_empty_def)

lemma dequeue_Cons: "dequeue (x # q) = (Some x, q)"
  by (simp add: dequeue_def WaitingList_is_empty_def)

lemma dequeue_n_Nil: "dequeue_n k [] = (replicate k None, [])"
  by (induction k) (simp_all add: dequeue_Nil)

lemma dequeue_n_list:
  "dequeue_n k q = (map Some (take k q) @ replicate (k - length q) None, drop k q)"
proof (induction k arbitrary: q)
  case 0
  show ?case by simp
next
  case (Suc k)
  show ?case
  proof (cases q)
    case Nil
    then show ?thesis using dequeue_n_Nil [of "Suc k"] by simp
  next
    case (Cons x r)
    then show ?thesis by (simp add: dequeue_Cons Suc)
  qed
qed

text \<open>
  Claim C9. Each waiting queue is first-in first-out. Enqueuing \<open>a\<close>, \<open>b\<close>, \<open>c\<close> into an
  empty queue and dequeuing three times yields \<open>a\<close>, \<open>b\<close>, \<open>c\<close> in that order and leaves
  the queue empty. In general, from any queue \<open>q\<close>, after enqueuing the students \<open>xs\<close> in
  order, \<open>k\<close> calls of \<^verbatim>\<open>dequeue\<close> return the first \<open>k\<close> records of \<open>q\<close> followed by
  \<open>xs\<close>, that is the longest-waiting records first, then \<^verbatim>\<open>None\<close> once the queue has
  run empty; the records not yet dequeued stay in their order.
\<close>

theorem queue_fifo:
  "dequeue_n 3 (enqueue_all [] [a, b, c]) = ([Some a, Some b, Some c], []) \<and>
   dequeue_n k (enqueue_all q xs)
     = (map Some (take k (q @ xs)) @ replicate (k - length (q @ xs)) None, drop k (q @ xs))"
  by (simp add: dequeue_n_list enqueue_all_append)

subsection \<open>Tier derivation\<close>

text \<open>
  Claim C8. The label stored for a score \<open>s\<close> is Low exactly when \<open>s < 40\<close>, Mid exactly
  when \<open>40 \<le> s < 75\<close> and High exactly when \<open>s \<ge> 75\<close>; \<^verbatim>\<open>update_marks\<close> stores the new
  score and the label that the constructor derives from that score.
\<close>

theorem tier_derivation:
  "(label (MemberNode_init nm s lang sid) = Low \<longleftrightarrow> s < 40) \<and>
   (label (MemberNode_init nm s lang sid) = Mid \<longleftrightarrow> 40 \<le> s \<and> s < 75) \<and>
   (label (MemberNode_init nm s lang sid) = High \<longleftrightarrow> 75 \<le> s) \<and>
   label (update_marks node s) = label (MemberNode_init nm s lang sid) \<and>
   marks (update_marks node s) = s"
  by (simp add: MemberNode_init_def update_marks_def Let_def)

subsection \<open>Group formation\<close>

text \<open>
  Claim C4. When the high queue holds fewer than 2 students, or the mid queue fewer than
  3, or the low queue fewer than 2, \<^verbatim>\<open>create_new_group\<close> returns \<^verbatim>\<open>None\<close> ("not
  formed") and the directory is the one it was called on: the three queues and the group
  list are unchanged.
\<close>

theorem create_new_group_insufficient:
  "length (waiting_list_high G) < 2 \<or> length (waiting_list_mid G) < 3
     \<or> length (waiting_list_low G) < 2 \<Longrightarrow> create_new_group G = Inr (None, G)"
  by (auto simp add: create_new_group_def Let_def)

theorem create_new_group_insufficient_witness:
  "(length (waiting_list_high dir_1_5_2) < 2 \<or> length (waiting_list_mid dir_1_5_2) < 3
      \<or> length (waiting_list_low dir_1_5_2) < 2)
   \<and> create_new_group dir_1_5_2 = Inr (None, dir_1_5_2)"
proof -
  have h: "length (waiting_list_high dir_1_5_2) < 2 \<or> length (waiting_list_mid dir_1_5_2) < 3
      \<or> length (waiting_list_low dir_1_5_2) < 2"
    by (simp add: dir_1_5_2_def)
  show ?thesis using h create_new_group_insufficient [OF h] by simp
qed

subsection \<open>Looking groups up\<close>

lemma first_with_id_Some:
  "first_with_id gs gid = Some i \<Longrightarrow> i < length gs \<and> group_id (gs ! i) = gid"
proof (induction gs arbitrary: i)
  case Nil
  then show ?case by simp
next
  case (Cons g gs)
  then show ?case by (auto split: if_splits option.splits)
qed

subsection \<open>Merging\<close>

text \<open>
  Claim C2 (merge rejection is non-mutating) does not hold of the code. Groups 1 and 2 of
  \<open>two_small\<close> hold one High and one Low member, so the combined counts are (1, 0, 1)
  and not (2, 3, 2). \<^verbatim>\<open>merge_groups(1, 2)\<close> returns \<^verbatim>\<open>False\<close>, but the roster of
  group 1, which was the student 1, is now the students 1 and 2: the chains were linked
  before the composition was checked.
\<close>

theorem merge_rejected_mutates:
  "roster_ids two_small = [[1], [2]] \<and>
   count_labels (head (roster two_small 0) @ head (roster two_small 1)) 0 0 0 = (1, 0, 1) \<and>
   map_sum id (\<lambda>(merged, G'). (merged, roster_ids G')) (merge_groups two_small 1 2)
     = Inr (False, [[1, 2], [2]])"
  by (simp add: merge_groups_def search_group_id_def merge_members_def remove_group_def
      set_roster_def roster_def roster_ids_def example_defs)

text \<open>
  Claim C5 (the counters equal the tally of the roster after every roster-mutating
  operation) does not hold of \<^verbatim>\<open>merge_groups\<close>. In \<open>two_partial\<close> the counters of both
  groups agree with their rosters. \<^verbatim>\<open>merge_groups(1, 2)\<close> succeeds: the roster of group 1
  becomes the seven students 5, 6, 7, 8, 10, 11, 12 and group 2 is emptied, but the
  counters of group 1 stay at 4 members (0 High, 2 Mid, 2 Low).
\<close>

theorem merge_groups_stale_counters:
  "counters_ok (roster two_partial 0) \<and> counters_ok (roster two_partial 1) \<and>
   map_sum id (\<lambda>(merged, G'). (merged, roster_ids G', roster_counters G', counters_ok (roster G' 0)))
       (merge_groups two_partial 1 2)
     = Inr (True, [[5, 6, 7, 8, 10, 11, 12], []], [(4, 0, 2, 2), (0, 0, 0, 0)], False)"
  by (simp add: merge_groups_def search_group_id_def merge_members_def remove_group_def
      set_roster_def roster_def roster_ids_def roster_counters_def counters_ok_def tally_def
      example_defs Let_def)

subsection \<open>The merge-eligibility sweep\<close>

lemma doubled_counts_not_7: "2 * a + 2 * b + 2 * c \<noteq> (7::int)"
  by presburger

lemma merge_with_earlier_id: "merge_with_earlier current ks G = Inr G"
  by (induction ks) (simp_all add: doubled_counts_not_7 Let_def)

lemma possible_merging_loop_id: "possible_merging_loop li cs G = Inr G"
  by (induction cs) (simp_all add: merge_with_earlier_id)

text \<open>The sweep never calls \<^verbatim>\<open>merge_groups\<close>: twice a sum of integers is not 7.\<close>

lemma possible_merging_id: "possible_merging G = Inr G"
  by (simp add: possible_merging_def possible_merging_loop_id Let_def)

text \<open>
  Claim C6 (the sweep merges every pair of partial groups whose counts sum to 7) does not
  hold of the code. In \<open>two_partial\<close> both groups are partial, their sizes 4 and 3 sum to
  7, and \<^verbatim>\<open>merge_groups(1, 2)\<close> would succeed; \<^verbatim>\<open>possible_merging\<close> returns with the
  directory unchanged.
\<close>

theorem possible_merging_leaves_pair:
  "classify_groups two_partial = ([], [0, 1]) \<and>
   number_of_members (roster two_partial 0) + number_of_members (roster two_partial 1) = 7 \<and>
   map_sum id fst (merge_groups two_partial 1 2) = Inr True \<and>
   possible_merging two_partial = Inr two_partial"
proof -
  have "classify_groups two_partial = ([], [0, 1])"
    by (simp add: classify_groups_def roster_def example_defs upt_rec)
  moreover have "number_of_members (roster two_partial 0)
                   + number_of_members (roster two_partial 1) = 7"
    by (simp add: roster_def example_defs)
  moreover have "map_sum id fst (merge_groups two_partial 1 2) = Inr True"
    by (simp add: merge_groups_def search_group_id_def merge_members_def remove_group_def
        set_roster_def roster_def example_defs Let_def)
  ultimately show ?thesis by (simp add: possible_merging_id)
qed

subsection \<open>Member departure\<close>

lemma Groups_delete_member_no_group:
  "search_group_id G gid = None \<Longrightarrow> Groups_delete_member G gid mid = Inl AttributeError"
  by (simp add: Groups_delete_member_def)

lemma Groups_delete_member_no_member:
  "search_group_id G gid = Some g \<Longrightarrow> search_member_id (roster G g) mid = None
     \<Longrightarrow> Groups_delete_member G gid mid = Inl AttributeError"
  by (simp add: Groups_delete_member_def)

text \<open>
  Claim C7 (\<^verbatim>\<open>Groups.delete_member\<close> fails silently on an absent group or member) does
  not hold of the code. In the empty directory no group has id 1, and
  \<^verbatim>\<open>delete_member(1, 1)\<close> raises \<^verbatim>\<open>AttributeError\<close>; in \<open>two_small\<close> group 1 exists
  and has no member 99, and \<^verbatim>\<open>delete_member(1, 99)\<close> raises \<^verbatim>\<open>AttributeError\<close>.
\<close>

theorem delete_member_absent_raises:
  "search_group_id (Groups_init ''English'') 1 = None \<and>
   Groups_delete_member (Groups_init ''English'') 1 1 = Inl AttributeError \<and>
   search_group_id two_small 1 = Some 0 \<and>
   search_member_id (roster two_small 0) 99 = None \<and>
   Groups_delete_member two_small 1 99 = Inl AttributeError"
  by (simp add: Groups_delete_member_def search_group_id_def search_member_id_def roster_def
      example_defs)

subsection \<open>The periodic condition check\<close>

lemma remove_group_effect:
  assumes "remove_group G gid = (b, G')"
  shows "session_rating (group_head G' ! i) = session_rating (group_head G ! i) \<and>
         (roster G' i = roster G i \<or>
          (count_high (roster G' i) = 0 \<and> count_mid (roster G' i) = 0
             \<and> count_low (roster G' i) = 0))"
proof (cases "search_group_id G gid")
  case None
  with assms show ?thesis by (simp add: remove_group_def)
next
  case (Some k)
  then have k: "k < length (group_head G)"
    using first_with_id_Some [of "group_head G" gid k] by (simp add: search_group_id_def)
  from Some assms
  have G': "G' = set_roster G k ((roster G k)\<lparr>head := [], number_of_members := 0,
                                   count_low := 0, count_mid := 0, count_high := 0\<rparr>)"
    by (simp add: remove_group_def)
  show ?thesis
  proof (cases "i = k")
    case True
    with k show ?thesis by (simp add: G' set_roster_def roster_def)
  next
    case False
    then show ?thesis by (simp add: G' set_roster_def roster_def)
  qed
qed

lemma avg_below_2_cong:
  "session_rating g' = session_rating g \<Longrightarrow>
     avg_below_2 average below_two g' = avg_below_2 average below_two g"
  by (simp add: avg_below_2_def calc_avg_rating_def)

text \<open>
  The first loop of \<^verbatim>\<open>condition_checker\<close> adds nothing to the worklist when no group it
  visits has the exact composition and an average rating below 2: removing a group only
  zeroes counters and leaves the ratings alone. It returns when no average computation
  raises.
\<close>

lemma collect_worklist_unchanged:
  "\<forall>i\<in>set ps. count_high (roster G i) = 2 \<and> count_mid (roster G i) = 3
       \<and> count_low (roster G i) = 2
       \<longrightarrow> avg_below_2 average below_two (group_head G ! i) \<noteq> Inr True
   \<Longrightarrow> collect_low_rated average below_two ps L G = Inr (L', G') \<Longrightarrow> L' = L"
proof (induction ps arbitrary: G)
  case Nil
  then show ?case by simp
next
  case (Cons p ps)
  let ?G' = "snd (remove_group G (group_id (group_head G ! p)))"
  have eff: "\<And>i. session_rating (group_head ?G' ! i) = session_rating (group_head G ! i) \<and>
         (roster ?G' i = roster G i \<or>
          (count_high (roster ?G' i) = 0 \<and> count_mid (roster ?G' i) = 0
             \<and> count_low (roster ?G' i) = 0))"
    using remove_group_effect [of G "group_id (group_head G ! p)"
        "fst (remove_group G (group_id (group_head G ! p)))" ?G']
    by simp
  have inv': "\<forall>i\<in>set ps. count_high (roster ?G' i) = 2 \<and> count_mid (roster ?G' i) = 3
       \<and> count_low (roster ?G' i) = 2
       \<longrightarrow> avg_below_2 average below_two (group_head ?G' ! i) \<noteq> Inr True"
  proof (intro ballI impI)
    fix i assume i: "i \<in> set ps"
      and ex: "count_high (roster ?G' i) = 2 \<and> count_mid (roster ?G' i) = 3
                 \<and> count_low (roster ?G' i) = 2"
    from eff [of i] ex have same: "roster ?G' i = roster G i" by auto
    have "avg_below_2 average below_two (group_head ?G' ! i)
            = avg_below_2 average below_two (group_head G ! i)"
      using eff [of i] by (intro avg_below_2_cong) simp
    with Cons.prems(1) i ex same
    show "avg_below_2 average below_two (group_head ?G' ! i) \<noteq> Inr True" by simp
  qed
  have inv: "\<forall>i\<in>set ps. count_high (roster G i) = 2 \<and> count_mid (roster G i) = 3
       \<and> count_low (roster G i) = 2
       \<longrightarrow> avg_below_2 average below_two (group_head G ! i) \<noteq> Inr True"
    using Cons.prems(1) by simp
  have hd: "count_high (roster G p) = 2 \<and> count_mid (roster G p) = 3
       \<and> count_low (roster G p) = 2
       \<longrightarrow> avg_below_2 average below_two (group_head G ! p) \<noteq> Inr True"
    using Cons.prems(1) by simp
  let ?exact = "count_high (roster G p) = 2 \<and> count_mid (roster G p) = 3
                  \<and> count_low (roster G p) = 2"
  show ?case
  proof (cases "avg_below_2 average below_two (group_head G ! p)")
    case (Inl e)
    then show ?thesis using Cons.prems(2) by (simp add: Let_def split: if_splits)
  next
    case (Inr b)
    show ?thesis
    proof (cases b)
      case False
      have "collect_low_rated average below_two ps L G = Inr (L', G')"
        using Cons.prems(2) by (simp add: Let_def Inr False split: if_splits)
      then show ?thesis by (rule Cons.IH [OF inv])
    next
      case True
      with Inr hd have ne: "\<not> ?exact" by simp
      have "collect_low_rated average below_two ps L ?G' = Inr (L', G')"
        using Cons.prems(2) ne by (simp add: Let_def Inr True split: if_splits)
      then show ?thesis by (rule Cons.IH [OF inv'])
    qed
  qed
qed

lemma collect_returns:
  "\<forall>i\<in>set ps. \<not> isl (avg_below_2 average below_two (group_head G ! i))
   \<Longrightarrow> \<exists>L' G'. collect_low_rated average below_two ps L G = Inr (L', G')"
proof (induction ps arbitrary: G L)
  case Nil
  show ?case by simp
next
  case (Cons p ps)
  let ?G' = "snd (remove_group G (group_id (group_head G ! p)))"
  have eff: "\<And>i. session_rating (group_head ?G' ! i) = session_rating (group_head G ! i)"
    using remove_group_effect [of G "group_id (group_head G ! p)"
        "fst (remove_group G (group_id (group_head G ! p)))" ?G']
    by simp
  have same: "\<And>i. avg_below_2 average below_two (group_head ?G' ! i)
                     = avg_below_2 average below_two (group_head G ! i)"
    by (intro avg_below_2_cong) (rule eff)
  have inv': "\<forall>i\<in>set ps. \<not> isl (avg_below_2 average below_two (group_head ?G' ! i))"
    using Cons.prems by (simp add: same)
  have inv: "\<forall>i\<in>set ps. \<not> isl (avg_below_2 average below_two (group_head G ! i))"
    using Cons.prems by simp
  obtain b where b: "avg_below_2 average below_two (group_head G ! p) = Inr b"
    using Cons.prems by (cases "avg_below_2 average below_two (group_head G ! p)") auto
  show ?case
    using Cons.IH [OF inv] Cons.IH [OF inv'] b
    by (cases b) (simp_all add: Let_def)
qed

text \<open>
  Claim C10. Let no group that is full (\<^verbatim>\<open>number_of_members\<close> is 7) and has the exact
  counters (2 High, 3 Mid, 2 Low) have an average session rating below 2, the average and
  the comparison being whatever Python's arithmetic computes. Then the reshuffle worklist
  is empty and \<^verbatim>\<open>condition_checker\<close> raises an exception instead of returning, whatever
  the shuffle; the exception is the \<^verbatim>\<open>IndexError\<close> of \<^verbatim>\<open>L[0]\<close> unless the average
  computation of a full group raised first.
\<close>

theorem condition_checker_empty_worklist:
  assumes "\<forall>i<length (group_head G).
             number_of_members (roster G i) = 7 \<and> count_high (roster G i) = 2 \<and>
             count_mid (roster G i) = 3 \<and> count_low (roster G i) = 2
             \<longrightarrow> avg_below_2 average below_two (group_head G ! i) \<noteq> Inr True"
  shows "(\<exists>e. condition_checker shuffle average below_two G = Inl e) \<and>
         ((\<forall>i<length (group_head G). number_of_members (roster G i) = 7
              \<longrightarrow> \<not> isl (avg_below_2 average below_two (group_head G ! i)))
          \<longrightarrow> condition_checker shuffle average below_two G = Inl IndexError)"
proof -
  let ?L1 = "fst (classify_groups G)"
  have inv: "\<forall>i\<in>set ?L1.
          count_high (roster G i) = 2 \<and> count_mid (roster G i) = 3 \<and> count_low (roster G i) = 2
          \<longrightarrow> avg_below_2 average below_two (group_head G ! i) \<noteq> Inr True"
    using assms by (simp add: classify_groups_def)
  have empty: "\<And>L' G'. collect_low_rated average below_two ?L1 [] G = Inr (L', G')
                 \<Longrightarrow> condition_checker shuffle average below_two G = Inl IndexError"
  proof -
    fix L' G'
    assume c: "collect_low_rated average below_two ?L1 [] G = Inr (L', G')"
    from collect_worklist_unchanged [OF inv c] have "L' = []" .
    with c show "condition_checker shuffle average below_two G = Inl IndexError"
      by (simp add: condition_checker_def Let_def)
  qed
  have raises: "\<exists>e. condition_checker shuffle average below_two G = Inl e"
  proof (cases "collect_low_rated average below_two ?L1 [] G")
    case (Inl e)
    then show ?thesis by (simp add: condition_checker_def Let_def)
  next
    case (Inr r)
    then show ?thesis using empty [of "fst r" "snd r"] by simp
  qed
  have index: "(\<forall>i<length (group_head G). number_of_members (roster G i) = 7
              \<longrightarrow> \<not> isl (avg_below_2 average below_two (group_head G ! i)))
          \<longrightarrow> condition_checker shuffle average below_two G = Inl IndexError"
  proof
    assume "\<forall>i<length (group_head G). number_of_members (roster G i) = 7
              \<longrightarrow> \<not> isl (avg_below_2 average below_two (group_head G ! i))"
    then have "\<forall>i\<in>set ?L1. \<not> isl (avg_below_2 average below_two (group_head G ! i))"
      by (simp add: classify_groups_def)
    from collect_returns [OF this, of "[]"] obtain L' G'
      where "collect_low_rated average below_two ?L1 [] G = Inr (L', G')" by blast
    then show "condition_checker shuffle average below_two G = Inl IndexError"
      by (rule empty)
  qed
  from raises index show ?thesis by blast
qed

theorem condition_checker_empty_worklist_witness:
  "number_of_members (roster rated_full 0) = 7 \<and> count_high (roster rated_full 0) = 2 \<and>
   count_mid (roster rated_full 0) = 3 \<and> count_low (roster rated_full 0) = 2 \<and>
   avg_below_2 exact_average real_below_two (group_head rated_full ! 0) = Inr False \<and>
   number_of_members (roster rated_full 1) = 2 \<and> length (group_head rated_full) = 2 \<and>
   condition_checker rev exact_average real_below_two rated_full = Inl IndexError"
proof -
  have f: "number_of_members (roster rated_full 0) = 7 \<and> count_high (roster rated_full 0) = 2 \<and>
           count_mid (roster rated_full 0) = 3 \<and> count_low (roster rated_full 0) = 2 \<and>
           avg_below_2 exact_average real_below_two (group_head rated_full ! 0) = Inr False \<and>
           number_of_members (roster rated_full 1) = 2 \<and> length (group_head rated_full) = 2"
    by (simp add: roster_def avg_below_2_def calc_avg_rating_def exact_average_def
        real_below_two_def example_defs)
  have h: "\<forall>i<length (group_head rated_full).
       number_of_members (roster rated_full i) = 7 \<and> count_high (roster rated_full i) = 2 \<and>
       count_mid (roster rated_full i) = 3 \<and> count_low (roster rated_full i) = 2
       \<longrightarrow> avg_below_2 exact_average real_below_two (group_head rated_full ! i) \<noteq> Inr True"
    using f by (simp add: All_less_Suc numeral_2_eq_2)
  have n: "\<forall>i<length (group_head rated_full). number_of_members (roster rated_full i) = 7
              \<longrightarrow> \<not> isl (avg_below_2 exact_average real_below_two (group_head rated_full ! i))"
    using f by (simp add: All_less_Suc numeral_2_eq_2)
  show ?thesis
    using f n condition_checker_empty_worklist [OF h, of rev] by simp
qed

subsection \<open>Rosters built by adding members\<close>

lemma tally_Nil: "tally lb [] = 0"
  by (simp add: tally_def)

lemma tally_append: "tally lb (xs @ ys) = tally lb xs + tally lb ys"
  by (simp add: tally_def)

lemma tally_Cons: "tally lb (n # ns) = (if label n = lb then 1 else 0) + tally lb ns"
  by (simp add: tally_def)

lemma tally_single: "tally lb [n] = (if label n = lb then 1 else 0)"
  by (simp add: tally_def)

lemma add_member_head:
  "head (add_member M nm mk lang sid) = head M @ [MemberNode_init nm mk lang sid]"
  by (simp add: add_member_def Let_def Member_is_empty_def)

lemma add_member_number: "number_of_members (add_member M nm mk lang sid) = number_of_members M + 1"
  by (simp add: add_member_def Let_def)

lemma add_member_count_low:
  "count_low (add_member M nm mk lang sid) = count_low M + tally Low [MemberNode_init nm mk lang sid]"
  by (simp add: add_member_def Let_def tally_single)

lemma add_member_count_mid:
  "count_mid (add_member M nm mk lang sid) = count_mid M + tally Mid [MemberNode_init nm mk lang sid]"
  by (simp add: add_member_def Let_def tally_single)

lemma add_member_count_high:
  "count_high (add_member M nm mk lang sid) = count_high M + tally High [MemberNode_init nm mk lang sid]"
  by (cases "label (MemberNode_init nm mk lang sid)") (simp_all add: add_member_def Let_def tally_single)

lemmas add_member_effect = add_member_head add_member_number add_member_count_low
  add_member_count_mid add_member_count_high

lemma add_students_effect:
  "head (add_students q M) = head M @ map to_member q \<and>
   number_of_members (add_students q M) = number_of_members M + int (length q) \<and>
   count_low (add_students q M) = count_low M + tally Low (map to_member q) \<and>
   count_mid (add_students q M) = count_mid M + tally Mid (map to_member q) \<and>
   count_high (add_students q M) = count_high M + tally High (map to_member q)"
proof (induction q arbitrary: M)
  case Nil
  show ?case by (simp add: tally_Nil)
next
  case (Cons s q)
  show ?case
    by (simp add: Cons add_member_effect tally_Cons tally_single tally_Nil to_member_def)
qed

lemma take_students_enough:
  "n \<le> length q \<Longrightarrow> take_students n q M = Inr (drop n q, add_students (take n q) M)"
proof (induction n arbitrary: q M)
  case 0
  show ?case by simp
next
  case (Suc n)
  then obtain s r where q: "q = s # r" by (cases q) auto
  with Suc.prems have "n \<le> length r" by simp
  from Suc.IH [OF this] show ?case by (simp add: q dequeue_Cons)
qed

lemma tally_high_students:
  "\<forall>s\<in>set q. 75 \<le> marks s \<Longrightarrow>
     tally High (map to_member q) = int (length q) \<and> tally Mid (map to_member q) = 0
       \<and> tally Low (map to_member q) = 0"
  by (induction q) (simp_all add: tally_def to_member_def MemberNode_init_def)

lemma tally_mid_students:
  "\<forall>s\<in>set q. 40 \<le> marks s \<and> marks s < 75 \<Longrightarrow>
     tally High (map to_member q) = 0 \<and> tally Mid (map to_member q) = int (length q)
       \<and> tally Low (map to_member q) = 0"
  by (induction q) (simp_all add: tally_def to_member_def MemberNode_init_def)

lemma tally_low_students:
  "\<forall>s\<in>set q. marks s < 40 \<Longrightarrow>
     tally High (map to_member q) = 0 \<and> tally Mid (map to_member q) = 0
       \<and> tally Low (map to_member q) = int (length q)"
  by (induction q) (simp_all add: tally_def to_member_def MemberNode_init_def)

lemma first_empty_Some:
  "first_empty gs = Some i \<Longrightarrow> i < length gs \<and> Member_is_empty (member_list (gs ! i))"
proof (induction gs arbitrary: i)
  case Nil
  then show ?case by simp
next
  case (Cons g gs)
  then show ?case by (auto split: if_splits option.splits)
qed

lemma roster_set_roster_same:
  "i < length (group_head G) \<Longrightarrow> roster (set_roster G i M) i = M"
  by (simp add: roster_def set_roster_def)

lemma roster_set_roster_other:
  "i \<noteq> j \<Longrightarrow> roster (set_roster G i M) j = roster G j"
  by (simp add: roster_def set_roster_def)

lemma length_set_roster: "length (group_head (set_roster G i M)) = length (group_head G)"
  by (simp add: set_roster_def)


lemma vacant_counters:
  "Member_is_empty M \<Longrightarrow> counters_ok M \<Longrightarrow>
     head M = [] \<and> number_of_members M = 0 \<and> count_low M = 0 \<and> count_mid M = 0 \<and> count_high M = 0"
  by (simp add: Member_is_empty_def counters_ok_def tally_Nil)

subsection \<open>Formation from exact queues\<close>

text \<open>
  Formation under the roster invariant. When the high queue holds exactly 2 students, all
  with marks of at least 75, the mid queue exactly 3 students with marks from 40 up to but
  below 75, and the low queue exactly 2 students with marks below 40, and every vacant
  group of the directory (a group with an empty roster) has counters that agree with its
  roster, \<^verbatim>\<open>create_new_group\<close> returns a group whose roster is the seven students, High
  first, then Mid, then Low, in queue order: 7 members with tier counts (2, 3, 2), the
  counters and \<^verbatim>\<open>number_of_members\<close> saying the same, and the three queues are empty
  afterwards.
\<close>

lemma create_new_group_exact:
  assumes high: "length (waiting_list_high G) = 2" "\<forall>s\<in>set (waiting_list_high G). 75 \<le> marks s"
      and mid: "length (waiting_list_mid G) = 3"
               "\<forall>s\<in>set (waiting_list_mid G). 40 \<le> marks s \<and> marks s < 75"
      and low: "length (waiting_list_low G) = 2" "\<forall>s\<in>set (waiting_list_low G). marks s < 40"
      and vacant: "\<forall>g\<in>set (group_head G). Member_is_empty (member_list g) \<longrightarrow> counters_ok (member_list g)"
  shows "\<exists>i G'. create_new_group G = Inr (Some i, G') \<and> i < length (group_head G') \<and>
           head (roster G' i)
             = map to_member (waiting_list_high G @ waiting_list_mid G @ waiting_list_low G) \<and>
           length (head (roster G' i)) = 7 \<and>
           tally High (head (roster G' i)) = 2 \<and> tally Mid (head (roster G' i)) = 3 \<and>
           tally Low (head (roster G' i)) = 2 \<and>
           number_of_members (roster G' i) = 7 \<and> count_high (roster G' i) = 2 \<and>
           count_mid (roster G' i) = 3 \<and> count_low (roster G' i) = 2 \<and>
           waiting_list_high G' = [] \<and> waiting_list_mid G' = [] \<and> waiting_list_low G' = []"
proof -
  let ?wh = "waiting_list_high G" and ?wm = "waiting_list_mid G" and ?wl = "waiting_list_low G"
  define pg where "pg = (case first_empty (group_head G) of
                           Some e \<Rightarrow> (e, G)
                         | None \<Rightarrow> add_new_group G (no_of_groups G + 1))"
  define pos where "pos = fst pg"
  define G0 where "G0 = snd pg"
  have G0: "pos < length (group_head G0) \<and> head (roster G0 pos) = [] \<and>
            number_of_members (roster G0 pos) = 0 \<and> count_low (roster G0 pos) = 0 \<and>
            count_mid (roster G0 pos) = 0 \<and> count_high (roster G0 pos) = 0 \<and>
            waiting_list_high G0 = ?wh \<and> waiting_list_mid G0 = ?wm \<and> waiting_list_low G0 = ?wl"
  proof (cases "first_empty (group_head G)")
    case None
    then show ?thesis
      by (simp add: pos_def G0_def pg_def add_new_group_def roster_def GroupListNode_init_def
          Member_init_def)
  next
    case (Some e)
    from first_empty_Some [OF Some]
    have e: "e < length (group_head G)" "Member_is_empty (member_list (group_head G ! e))"
      by simp_all
    then have "counters_ok (member_list (group_head G ! e))"
      using vacant by simp
    from vacant_counters [OF e(2) this] e(1) Some show ?thesis
      by (simp add: pos_def G0_def pg_def roster_def)
  qed
  define M1 where "M1 = add_students ?wh (roster G0 pos)"
  define M2 where "M2 = add_students ?wm M1"
  define M3 where "M3 = add_students ?wl M2"
  have t1: "take_students 2 ?wh (roster G0 pos) = Inr ([], M1)"
    using take_students_enough [of 2 ?wh "roster G0 pos"] high(1) by (simp add: M1_def)
  have t2: "take_students 3 ?wm M1 = Inr ([], M2)"
    using take_students_enough [of 3 ?wm M1] mid(1) by (simp add: M2_def)
  have t3: "take_students 2 ?wl M2 = Inr ([], M3)"
    using take_students_enough [of 2 ?wl M2] low(1) by (simp add: M3_def)
  have e1: "head M1 = map to_member ?wh \<and> number_of_members M1 = 2 \<and> count_low M1 = 0 \<and>
            count_mid M1 = 0 \<and> count_high M1 = 2"
    using add_students_effect [of ?wh "roster G0 pos"] tally_high_students [OF high(2)] G0 high(1)
    by (simp add: M1_def)
  have e2: "head M2 = map to_member ?wh @ map to_member ?wm \<and> number_of_members M2 = 5 \<and>
            count_low M2 = 0 \<and> count_mid M2 = 3 \<and> count_high M2 = 2"
    using add_students_effect [of ?wm M1] tally_mid_students [OF mid(2)] e1 mid(1)
    by (simp add: M2_def)
  have e3: "head M3 = map to_member ?wh @ map to_member ?wm @ map to_member ?wl \<and>
            number_of_members M3 = 7 \<and> count_low M3 = 2 \<and> count_mid M3 = 3 \<and> count_high M3 = 2"
    using add_students_effect [of ?wl M2] tally_low_students [OF low(2)] e2 low(1)
    by (simp add: M3_def)
  define G' where "G' = (set_roster G0 pos M3)
                          \<lparr>waiting_list_low := [], waiting_list_mid := [], waiting_list_high := []\<rparr>"
  have pg: "(case first_empty (group_head G) of
               Some e \<Rightarrow> (e, G)
             | None \<Rightarrow> add_new_group G (no_of_groups G + 1)) = (pos, G0)"
    by (simp add: pos_def G0_def pg_def)
  have res: "create_new_group G = Inr (Some pos, G')"
    using high(1) mid(1) low(1) G0 t1 t2 t3 e3
    by (simp add: create_new_group_def Let_def pg G'_def)
  have r: "roster G' pos = M3"
    using G0 by (simp add: G'_def roster_def set_roster_def)
  have len: "pos < length (group_head G')"
    using G0 by (simp add: G'_def set_roster_def)
  have tl: "tally High (head M3) = 2 \<and> tally Mid (head M3) = 3 \<and> tally Low (head M3) = 2"
    using e3 tally_high_students [OF high(2)] tally_mid_students [OF mid(2)]
      tally_low_students [OF low(2)] high(1) mid(1) low(1)
    by (simp add: tally_append)
  have q: "waiting_list_high G' = [] \<and> waiting_list_mid G' = [] \<and> waiting_list_low G' = []"
    by (simp add: G'_def)
  have l7: "length (head M3) = 7"
    using e3 high(1) mid(1) low(1) by simp
  show ?thesis
    using res r len tl q l7 e3 by auto
qed


lemma create_new_group_exact_example:
  "length (waiting_list_high dir_2_3_2) = 2 \<and>
   list_all (\<lambda>s. 75 \<le> marks s) (waiting_list_high dir_2_3_2) \<and>
   length (waiting_list_mid dir_2_3_2) = 3 \<and>
   list_all (\<lambda>s. 40 \<le> marks s \<and> marks s < 75) (waiting_list_mid dir_2_3_2) \<and>
   length (waiting_list_low dir_2_3_2) = 2 \<and>
   list_all (\<lambda>s. marks s < 40) (waiting_list_low dir_2_3_2) \<and>
   list_all (\<lambda>g. Member_is_empty (member_list g) \<and> counters_ok (member_list g))
     (group_head dir_2_3_2) \<and>
   (\<exists>i G'. create_new_group dir_2_3_2 = Inr (Some i, G') \<and> i < length (group_head G') \<and>
           head (roster G' i)
             = map to_member (waiting_list_high dir_2_3_2 @ waiting_list_mid dir_2_3_2
                               @ waiting_list_low dir_2_3_2) \<and>
           length (head (roster G' i)) = 7 \<and>
           tally High (head (roster G' i)) = 2 \<and> tally Mid (head (roster G' i)) = 3 \<and>
           tally Low (head (roster G' i)) = 2 \<and>
           number_of_members (roster G' i) = 7 \<and> count_high (roster G' i) = 2 \<and>
           count_mid (roster G' i) = 3 \<and> count_low (roster G' i) = 2 \<and>
           waiting_list_high G' = [] \<and> waiting_list_mid G' = [] \<and> waiting_list_low G' = [])"
proof -
  have h1: "length (waiting_list_high dir_2_3_2) = 2"
    and h2: "\<forall>s\<in>set (waiting_list_high dir_2_3_2). 75 \<le> marks s"
    and h3: "length (waiting_list_mid dir_2_3_2) = 3"
    and h4: "\<forall>s\<in>set (waiting_list_mid dir_2_3_2). 40 \<le> marks s \<and> marks s < 75"
    and h5: "length (waiting_list_low dir_2_3_2) = 2"
    and h6: "\<forall>s\<in>set (waiting_list_low dir_2_3_2). marks s < 40"
    by (simp_all add: example_defs)
  have v: "list_all (\<lambda>g. Member_is_empty (member_list g) \<and> counters_ok (member_list g))
             (group_head dir_2_3_2)"
    by (simp add: example_defs counters_ok_def tally_def)
  then have h7: "\<forall>g\<in>set (group_head dir_2_3_2).
              Member_is_empty (member_list g) \<longrightarrow> counters_ok (member_list g)"
    by (simp add: list_all_iff)
  have l2: "list_all (\<lambda>s. 75 \<le> marks s) (waiting_list_high dir_2_3_2)"
    and l4: "list_all (\<lambda>s. 40 \<le> marks s \<and> marks s < 75) (waiting_list_mid dir_2_3_2)"
    and l6: "list_all (\<lambda>s. marks s < 40) (waiting_list_low dir_2_3_2)"
    using h2 h4 h6 by (simp_all only: list_all_iff)
  from create_new_group_exact [OF h1 h2 h3 h4 h5 h6 h7] h1 l2 h3 l4 h5 l6 v
  show ?thesis by (intro conjI)
qed

lemma take_students_2: "take_students 2 [a, b] M = Inr ([], add_students [a, b] M)"
  using take_students_enough [of 2 "[a, b]" M] by simp

lemma take_students_3: "take_students 3 [a, b, c] M = Inr ([], add_students [a, b, c] M)"
  using take_students_enough [of 3 "[a, b, c]" M] by simp

text \<open>
  Claim C3 (with queues of exactly 2 High, 3 Mid and 2 Low students, formation returns a
  group of 7 with counts (2, 3, 2) and empties the queues) does not hold of the code in
  every directory state. In \<open>stale_vacant\<close> both rosters are empty, the counters of group 1
  are left at \<open>-3\<close> members (\<open>-2\<close> High, \<open>-1\<close> Mid, 0 Low) by the merge that never
  updated them, and the queues hold marks 90, 85 / 70, 65, 60 / 30, 30.
  \<^verbatim>\<open>create_new_group\<close> reuses group 1, moves the seven students 21 to 27 into it and
  empties the queues, then finds \<^verbatim>\<open>number_of_members\<close> at 4, returns \<^verbatim>\<open>None\<close> and
  decrements \<^verbatim>\<open>no_of_groups\<close> from 2 to 1; the counters read (0 High, 2 Mid, 2 Low).
\<close>

theorem create_new_group_stale_vacant:
  "map_sum id (\<lambda>G. (roster_ids G, roster_counters G, queue_marks G, no_of_groups G)) stale_vacant
     = Inr ([[], []], [(- 3, - 2, - 1, 0), (0, 0, 0, 0)], ([90, 85], [70, 65, 60], [30, 30]), 2) \<and>
   map_sum id (\<lambda>(r, G'). (r, roster_ids G', roster_counters G', queue_marks G', no_of_groups G'))
       (case stale_vacant of Inl e \<Rightarrow> Inl e | Inr G \<Rightarrow> create_new_group G)
     = Inr (None, [[21, 22, 23, 24, 25, 26, 27], []], [(4, 0, 2, 2), (0, 0, 0, 0)],
            ([], [], []), 1)"
proof -
  have path: "map_sum id (\<lambda>G. (roster_ids G, roster_counters G, queue_marks G, no_of_groups G))
                stale_vacant
     = Inr ([[], []], [(- 3, - 2, - 1, 0), (0, 0, 0, 0)], ([90, 85], [70, 65, 60], [30, 30]), 2)"
    by (simp add: stale_vacant_def merge_groups_def search_group_id_def merge_members_def
        remove_group_def set_roster_def roster_def roster_ids_def roster_counters_def
        queue_marks_def Groups_delete_member_def search_member_id_def dequeue_def
        WaitingList_is_empty_def Member_delete_member_def possible_merging_id
        enqueue_all_append example_defs Let_def)
  have formed: "map_sum id
       (\<lambda>(r, G'). (r, roster_ids G', roster_counters G', queue_marks G', no_of_groups G'))
       (case stale_vacant of Inl e \<Rightarrow> Inl e | Inr G \<Rightarrow> create_new_group G)
     = Inr (None, [[21, 22, 23, 24, 25, 26, 27], []], [(4, 0, 2, 2), (0, 0, 0, 0)],
            ([], [], []), 1)"
    apply (simp add: stale_vacant_def merge_groups_def search_group_id_def merge_members_def
        remove_group_def set_roster_def roster_def
        Groups_delete_member_def search_member_id_def dequeue_def
        WaitingList_is_empty_def Member_delete_member_def possible_merging_id
        enqueue_all_append example_defs Let_def)
    apply (simp add: create_new_group_def Let_def)
    apply (simp add: take_students_2 take_students_3 roster_def set_roster_def)
    apply (simp add: add_member_def MemberNode_init_def Member_is_empty_def waiting_student_def
        Let_def roster_ids_def roster_counters_def queue_marks_def)
    done
  from path formed show ?thesis by (rule conjI)
qed

subsection \<open>Reshuffling\<close>

lemma to_member_id: "label_matches_marks n \<Longrightarrow> to_member n = n"
  by (cases n) (simp add: label_matches_marks_def to_member_def MemberNode_init_def)

lemma map_to_member_id: "\<forall>n\<in>set ns. label_matches_marks n \<Longrightarrow> map to_member ns = ns"
  by (induction ns) (simp_all add: to_member_id)

lemma tally_nonneg: "0 \<le> tally lb ns"
  by (simp add: tally_def)

lemma tally_mset: "mset xs = mset ys \<Longrightarrow> tally lb xs = tally lb ys"
proof -
  assume "mset xs = mset ys"
  then have "mset (filter (\<lambda>n. label n = lb) xs) = mset (filter (\<lambda>n. label n = lb) ys)"
    by (simp add: mset_filter)
  then have "length (filter (\<lambda>n. label n = lb) xs) = length (filter (\<lambda>n. label n = lb) ys)"
    by (rule mset_eq_length)
  then show ?thesis by (simp add: tally_def)
qed

lemma split_pool_mset:
  "mset (fst (split_pool ms c)) + mset (snd (split_pool ms c)) = mset ms"
  by (induction ms c rule: split_pool.induct) simp_all

lemma split_pool_tally:
  "lo \<le> 2 \<Longrightarrow> mi \<le> 3 \<Longrightarrow> hi \<le> 2 \<Longrightarrow>
     tally Low (fst (split_pool ms (lo, mi, hi))) = min (tally Low ms) (2 - lo) \<and>
     tally Mid (fst (split_pool ms (lo, mi, hi))) = min (tally Mid ms) (3 - mi) \<and>
     tally High (fst (split_pool ms (lo, mi, hi))) = min (tally High ms) (2 - hi)"
proof (induction ms "(lo, mi, hi)" arbitrary: lo mi hi rule: split_pool.induct)
  case (1 counts)
  then show ?case by (simp add: tally_Nil)
next
  case (2 member members lo mi hi)
  have nn: "0 \<le> tally Low members" "0 \<le> tally Mid members" "0 \<le> tally High members"
    by (rule tally_nonneg)+
  show ?case
  proof (cases "label member")
    case Low
    show ?thesis
    proof (cases "lo < 2")
      case True
      with Low 2 nn show ?thesis by (simp add: tally_Cons)
    next
      case False
      with Low 2 nn show ?thesis by (simp add: tally_Cons)
    qed
  next
    case Mid
    show ?thesis
    proof (cases "mi < 3")
      case True
      with Mid 2 nn show ?thesis by (simp add: tally_Cons)
    next
      case False
      with Mid 2 nn show ?thesis by (simp add: tally_Cons)
    qed
  next
    case High
    show ?thesis
    proof (cases "hi < 2")
      case True
      with High 2 nn show ?thesis by (simp add: tally_Cons)
    next
      case False
      with High 2 nn show ?thesis by (simp add: tally_Cons)
    qed
  qed
qed

lemma distribute_split:
  "g1 \<noteq> g2 \<Longrightarrow> g1 < length (group_head G) \<Longrightarrow> g2 < length (group_head G) \<Longrightarrow>
     roster (distribute g1 g2 ms c G) g1 = add_students (fst (split_pool ms c)) (roster G g1) \<and>
     roster (distribute g1 g2 ms c G) g2 = add_students (snd (split_pool ms c)) (roster G g2)"
proof (induction ms arbitrary: c G)
  case Nil
  show ?case by simp
next
  case (Cons member ms)
  obtain lo mi hi where c: "c = (lo, mi, hi)" by (cases c) auto
  let ?to1 = "set_roster G g1 (add_member (roster G g1) (name member) (marks member)
                 (preferred_language member) (student_id member))"
  let ?to2 = "set_roster G g2 (add_member (roster G g2) (name member) (marks member)
                 (preferred_language member) (student_id member))"
  have len: "g1 < length (group_head ?to1)" "g2 < length (group_head ?to1)"
            "g1 < length (group_head ?to2)" "g2 < length (group_head ?to2)"
    using Cons.prems by (simp_all add: length_set_roster)
  note IH1 = Cons.IH [OF Cons.prems(1) len(1) len(2)]
  note IH2 = Cons.IH [OF Cons.prems(1) len(3) len(4)]
  have r: "roster ?to1 g1 = add_member (roster G g1) (name member) (marks member)
                 (preferred_language member) (student_id member)"
          "roster ?to1 g2 = roster G g2"
          "roster ?to2 g2 = add_member (roster G g2) (name member) (marks member)
                 (preferred_language member) (student_id member)"
          "roster ?to2 g1 = roster G g1"
    using Cons.prems by (simp_all add: roster_set_roster_same roster_set_roster_other)
  show ?case
    by (cases "label member") (simp_all add: c Let_def IH1 IH2 r)
qed


lemma reset_roster_fields:
  "head (reset_roster M) = [] \<and> number_of_members (reset_roster M) = 0 \<and>
   count_low (reset_roster M) = 0 \<and> count_mid (reset_roster M) = 0 \<and>
   count_high (reset_roster M) = 0"
  by (simp add: reset_roster_def)

text \<open>
  Claim C1. Let \<^verbatim>\<open>reshuffle\<close> be called on two existing groups with different ids whose
  combined pool of members (every node carrying the label its marks derive, which is what
  the constructor and \<^verbatim>\<open>update_marks\<close> store) has at least 2 High, 3 Mid and 2 Low
  members, and let the shuffle return any permutation of the pool. Then the call returns
  the two groups; the roster of the first has exactly 2 High, 3 Mid and 2 Low members,
  size 7, and its counters say the same; and the two rosters together hold exactly the
  members of the pool, so the total number of members is the one before the call. The
  counters of both rosters agree with their chains.
\<close>

theorem reshuffle_quota:
  assumes g1: "search_group_id G group1_id = Some g1"
      and g2: "search_group_id G group2_id = Some g2"
      and distinct: "group1_id \<noteq> group2_id"
      and pool: "pool = head (roster G g1) @ head (roster G g2)"
      and labels: "\<forall>n\<in>set pool. label_matches_marks n"
      and high: "2 \<le> tally High pool" and mid: "3 \<le> tally Mid pool"
      and low: "2 \<le> tally Low pool"
      and perm: "mset (shuffle pool) = mset pool"
  shows "\<exists>G'. reshuffle shuffle G group1_id group2_id = Inr (Some (g1, g2), G') \<and>
           tally High (head (roster G' g1)) = 2 \<and> tally Mid (head (roster G' g1)) = 3 \<and>
           tally Low (head (roster G' g1)) = 2 \<and> length (head (roster G' g1)) = 7 \<and>
           count_high (roster G' g1) = 2 \<and> count_mid (roster G' g1) = 3 \<and>
           count_low (roster G' g1) = 2 \<and> number_of_members (roster G' g1) = 7 \<and>
           length (head (roster G' g1)) + length (head (roster G' g2))
             = length (head (roster G g1)) + length (head (roster G g2)) \<and>
           mset (head (roster G' g1)) + mset (head (roster G' g2)) = mset pool \<and>
           counters_ok (roster G' g1) \<and> counters_ok (roster G' g2)"
proof -
  from g1 have b1: "g1 < length (group_head G)" and i1: "group_id (group_head G ! g1) = group1_id"
    using first_with_id_Some [of "group_head G" group1_id g1] by (simp_all add: search_group_id_def)
  from g2 have b2: "g2 < length (group_head G)" and i2: "group_id (group_head G ! g2) = group2_id"
    using first_with_id_Some [of "group_head G" group2_id g2] by (simp_all add: search_group_id_def)
  from i1 i2 distinct have ne: "g1 \<noteq> g2" by auto
  define members where "members = shuffle pool"
  define G1 where "G1 = set_roster G g1 (reset_roster (roster G g1))"
  define G2 where "G2 = set_roster G1 g2 (reset_roster (roster G1 g2))"
  define ms where "ms = rev members"
  define A where "A = fst (split_pool ms (0, 0, 0))"
  define B where "B = snd (split_pool ms (0, 0, 0))"
  define G' where "G' = distribute g1 g2 ms (0, 0, 0) G2"
  have msms: "mset ms = mset pool"
    using perm by (simp add: ms_def members_def)
  have tl: "\<And>lb. tally lb ms = tally lb pool"
    using tally_mset [OF msms] by simp
  have "pool \<noteq> []"
    using high by (auto simp add: tally_Nil)
  with perm have nonempty: "members \<noteq> []"
    by (auto simp add: members_def)
  have res: "reshuffle shuffle G group1_id group2_id = Inr (Some (g1, g2), G')"
    using g1 g2 nonempty
    by (simp add: reshuffle_def Let_def pool [symmetric] members_def [symmetric]
        G1_def [symmetric] G2_def [symmetric] ms_def [symmetric] G'_def)
  have len2: "g1 < length (group_head G2)" "g2 < length (group_head G2)"
    using b1 b2 by (simp_all add: G2_def G1_def length_set_roster)
  have r1: "roster G2 g1 = reset_roster (roster G g1)"
    using ne b1 by (simp add: G2_def G1_def roster_set_roster_other roster_set_roster_same)
  have r2: "roster G2 g2 = reset_roster (roster G1 g2)"
    using b2 by (simp add: G2_def G1_def roster_set_roster_same length_set_roster)
  from distribute_split [OF ne len2, of ms "(0, 0, 0)"]
  have R1: "roster G' g1 = add_students A (roster G2 g1)"
    and R2: "roster G' g2 = add_students B (roster G2 g2)"
    by (simp_all add: G'_def A_def B_def)
  have AB: "mset A + mset B = mset pool"
    using split_pool_mset [of ms "(0, 0, 0)"] msms by (simp add: A_def B_def)
  then have sub: "set A \<subseteq> set pool" "set B \<subseteq> set pool"
    by (metis mset_subset_eq_add_left set_mset_mono set_mset_mset,
        metis mset_subset_eq_add_right set_mset_mono set_mset_mset)
  have mA: "map to_member A = A" and mB: "map to_member B = B"
    using labels sub by (auto intro!: map_to_member_id)
  have tA: "tally Low A = 2 \<and> tally Mid A = 3 \<and> tally High A = 2"
    using split_pool_tally [of 0 0 0 ms] low mid high by (simp add: A_def tl)
  have hA: "head (roster G' g1) = A"
    using add_students_effect [of A "roster G2 g1"] reset_roster_fields [of "roster G g1"]
    by (simp add: R1 r1 mA)
  have hB: "head (roster G' g2) = B"
    using add_students_effect [of B "roster G2 g2"] reset_roster_fields [of "roster G1 g2"]
    by (simp add: R2 r2 mB)
  have cA: "number_of_members (roster G' g1) = int (length A) \<and>
            count_low (roster G' g1) = tally Low A \<and> count_mid (roster G' g1) = tally Mid A \<and>
            count_high (roster G' g1) = tally High A"
    using add_students_effect [of A "roster G2 g1"] reset_roster_fields [of "roster G g1"]
    by (simp add: R1 r1 mA)
  have cB: "number_of_members (roster G' g2) = int (length B) \<and>
            count_low (roster G' g2) = tally Low B \<and> count_mid (roster G' g2) = tally Mid B \<and>
            count_high (roster G' g2) = tally High B"
    using add_students_effect [of B "roster G2 g2"] reset_roster_fields [of "roster G1 g2"]
    by (simp add: R2 r2 mB)
  have total: "\<And>ns. int (length ns) = tally Low ns + tally Mid ns + tally High ns"
  proof -
    fix ns :: "MemberNode list"
    show "int (length ns) = tally Low ns + tally Mid ns + tally High ns"
    proof (induction ns)
      case Nil
      show ?case by (simp add: tally_Nil)
    next
      case (Cons n ns)
      then show ?case by (cases "label n") (simp_all add: tally_Cons)
    qed
  qed
  have lA: "length A = 7"
    using total [of A] tA by simp
  have lens: "length A + length B = length (head (roster G g1)) + length (head (roster G g2))"
    using AB pool by (metis length_append size_mset size_union)
  have okA: "counters_ok (roster G' g1)"
    using cA hA total [of A] by (simp add: counters_ok_def)
  have okB: "counters_ok (roster G' g2)"
    using cB hB total [of B] by (simp add: counters_ok_def)
  show ?thesis
    using res hA hB tA lA cA lens AB okA okB by auto
qed


theorem reshuffle_quota_witness:
  "search_group_id full_and_small 1 = Some 0 \<and> search_group_id full_and_small 2 = Some 1 \<and>
   (1::int) \<noteq> 2 \<and>
   list_all label_matches_marks (head (roster full_and_small 0) @ head (roster full_and_small 1)) \<and>
   2 \<le> tally High (head (roster full_and_small 0) @ head (roster full_and_small 1)) \<and>
   3 \<le> tally Mid (head (roster full_and_small 0) @ head (roster full_and_small 1)) \<and>
   2 \<le> tally Low (head (roster full_and_small 0) @ head (roster full_and_small 1)) \<and>
   mset (rev (head (roster full_and_small 0) @ head (roster full_and_small 1)))
     = mset (head (roster full_and_small 0) @ head (roster full_and_small 1)) \<and>
   (\<exists>G'. reshuffle rev full_and_small 1 2 = Inr (Some (0, 1), G') \<and>
           tally High (head (roster G' 0)) = 2 \<and> tally Mid (head (roster G' 0)) = 3 \<and>
           tally Low (head (roster G' 0)) = 2 \<and> length (head (roster G' 0)) = 7 \<and>
           count_high (roster G' 0) = 2 \<and> count_mid (roster G' 0) = 3 \<and>
           count_low (roster G' 0) = 2 \<and> number_of_members (roster G' 0) = 7 \<and>
           length (head (roster G' 0)) + length (head (roster G' 1))
             = length (head (roster full_and_small 0)) + length (head (roster full_and_small 1)) \<and>
           mset (head (roster G' 0)) + mset (head (roster G' 1))
             = mset (head (roster full_and_small 0) @ head (roster full_and_small 1)) \<and>
           counters_ok (roster G' 0) \<and> counters_ok (roster G' 1))"
proof -
  have h1: "search_group_id full_and_small 1 = Some 0"
    and h2: "search_group_id full_and_small 2 = Some 1"
    by (simp_all add: search_group_id_def example_defs)
  have h3: "(1::int) \<noteq> 2" by simp
  have h4: "\<forall>n\<in>set (head (roster full_and_small 0) @ head (roster full_and_small 1)).
              label_matches_marks n"
    by (simp add: roster_def label_matches_marks_def example_defs)
  have h4': "list_all label_matches_marks
               (head (roster full_and_small 0) @ head (roster full_and_small 1))"
    using h4 by (simp only: list_all_iff)
  have h5: "2 \<le> tally High (head (roster full_and_small 0) @ head (roster full_and_small 1))"
    and h6: "3 \<le> tally Mid (head (roster full_and_small 0) @ head (roster full_and_small 1))"
    and h7: "2 \<le> tally Low (head (roster full_and_small 0) @ head (roster full_and_small 1))"
    by (simp_all add: roster_def tally_def example_defs)
  have h8: "mset (rev (head (roster full_and_small 0) @ head (roster full_and_small 1)))
     = mset (head (roster full_and_small 0) @ head (roster full_and_small 1))"
    by (simp only: mset_rev)
  from reshuffle_quota [where shuffle = rev and G = full_and_small, OF h1 h2 h3 refl h4 h5 h6 h7 h8]
    h1 h2 h3 h4' h5 h6 h7 h8
  show ?thesis by (intro conjI)
qed

subsection \<open>The counters under the other roster operations\<close>

text \<open>
  \<^verbatim>\<open>add_member\<close>, \<^verbatim>\<open>Member.delete_member\<close> and \<^verbatim>\<open>remove_group\<close> keep the
  counters in step with the chain (for \<^verbatim>\<open>reshuffle\<close> see \<open>reshuffle_quota\<close>).
\<close>

lemma add_member_counters_ok: "counters_ok M \<Longrightarrow> counters_ok (add_member M nm mk lang sid)"
  by (cases "label (MemberNode_init nm mk lang sid)")
    (simp_all add: counters_ok_def add_member_effect tally_append tally_single)

lemma unlink_tally:
  "unlink sid ns = Some (d, ns') \<Longrightarrow>
     tally lb ns = tally lb ns' + (if label d = lb then 1 else 0)"
proof (induction ns arbitrary: ns')
  case Nil
  then show ?case by simp
next
  case (Cons n ns)
  then show ?case by (auto simp add: tally_Cons split: if_splits option.splits)
qed

lemma delete_member_counters_ok:
  "counters_ok M \<Longrightarrow> counters_ok (snd (Member_delete_member M sid))"
proof (cases "unlink sid (head M)")
  case None
  assume "counters_ok M"
  with None show ?thesis by (simp add: Member_delete_member_def)
next
  case (Some r)
  assume ok: "counters_ok M"
  obtain d ns where r: "r = (d, ns)" by (cases r) auto
  note t = unlink_tally [OF Some [unfolded r]]
  show ?thesis
    using ok t [of Low] t [of Mid] t [of High] Some r
    by (cases "label d") (simp_all add: Member_delete_member_def counters_ok_def)
qed

lemma remove_group_counters_ok:
  "search_group_id G gid = Some i \<Longrightarrow> counters_ok (roster (snd (remove_group G gid)) i)"
  using first_with_id_Some [of "group_head G" gid i]
  by (simp add: remove_group_def search_group_id_def roster_set_roster_same counters_ok_def tally_Nil)

end
